theory Spec2Isabelle
  imports Complex_Main "HOL-Library.Sublist" "HOL-Library.Multiset" "HOL-Library.AList"
    "HOL-Library.Product_Lexorder"
begin

section \<open>Strings as Go has them\<close>

text \<open>
  A Go string is a sequence of bytes; \<open>len\<close>, indexing and the functions of package
  \<open>strings\<close> work on bytes, and text is UTF-8 encoded. A \<^typ>\<open>string\<close> here is
  the list of those bytes, so a Chinese character takes three elements.
  The library functions the program calls are written out below with the behaviour the
  Go documentation gives them.
\<close>

definition HasPrefix :: "string \<Rightarrow> string \<Rightarrow> bool" where
  "HasPrefix s p = prefix p s"

text \<open>
  \<open>strings.Index(s, sub)\<close>: the byte index of the first occurrence of \<open>sub\<close> in
  \<open>s\<close>, or \<open>-1\<close>.
\<close>

fun Index :: "string \<Rightarrow> string \<Rightarrow> int" where
  "Index [] sub = (if sub = [] then 0 else -1)"
| "Index (c # s) sub =
     (if prefix sub (c # s) then 0
      else (let i = Index s sub in if i < 0 then -1 else i + 1))"

text \<open>\<open>strings.Contains(s, sub)\<close> is \<open>Index(s, sub) >= 0\<close>.\<close>

definition Contains :: "string \<Rightarrow> string \<Rightarrow> bool" where
  "Contains s sub = (Index s sub \<ge> 0)"

text \<open>
  \<open>strings.ReplaceAll(s, old, new)\<close> for a non-empty \<open>old\<close>: the occurrences of
  \<open>old\<close> are found from the left, without overlap, in one pass. (The program only
  passes non-empty constants for \<open>old\<close>.)
\<close>

function ReplaceAll :: "string \<Rightarrow> string \<Rightarrow> string \<Rightarrow> string" where
  "ReplaceAll s old new =
     (if old = [] \<or> s = [] then s
      else if prefix old s then new @ ReplaceAll (drop (length old) s) old new
      else hd s # ReplaceAll (tl s) old new)"
  by pat_completeness auto
termination
  by (relation "measure (\<lambda>(s, old, new). length s)") auto

text \<open>
  \<open>unicode.IsSpace\<close> holds for 25 code points: U+0009 to U+000D, U+0020, U+0085,
  U+00A0, U+1680, U+2000 to U+200A, U+2028, U+2029, U+202F, U+205F and U+3000.
  \<open>whiteSpace\<close> lists their UTF-8 encodings. A lead byte of UTF-8 is never a
  continuation byte, so Go's decoder reads one of these runes at a position exactly when
  the bytes there start with its encoding, and reads one ending at a position exactly
  when the bytes before it end with its encoding.
\<close>

definition whiteSpace :: "string list" where
  "whiteSpace =
    [[CHR 0x09], [CHR 0x0A], [CHR 0x0B], [CHR 0x0C], [CHR 0x0D], [CHR 0x20],
     [CHR 0xC2, CHR 0x85], [CHR 0xC2, CHR 0xA0],
     [CHR 0xE1, CHR 0x9A, CHR 0x80],
     [CHR 0xE2, CHR 0x80, CHR 0x80], [CHR 0xE2, CHR 0x80, CHR 0x81],
     [CHR 0xE2, CHR 0x80, CHR 0x82], [CHR 0xE2, CHR 0x80, CHR 0x83],
     [CHR 0xE2, CHR 0x80, CHR 0x84], [CHR 0xE2, CHR 0x80, CHR 0x85],
     [CHR 0xE2, CHR 0x80, CHR 0x86], [CHR 0xE2, CHR 0x80, CHR 0x87],
     [CHR 0xE2, CHR 0x80, CHR 0x88], [CHR 0xE2, CHR 0x80, CHR 0x89],
     [CHR 0xE2, CHR 0x80, CHR 0x8A],
     [CHR 0xE2, CHR 0x80, CHR 0xA8], [CHR 0xE2, CHR 0x80, CHR 0xA9],
     [CHR 0xE2, CHR 0x80, CHR 0xAF],
     [CHR 0xE2, CHR 0x81, CHR 0x9F],
     [CHR 0xE3, CHR 0x80, CHR 0x80]]"

text \<open>The whitespace rune a string starts with, and the one it ends with, if any.\<close>

definition leadingSpace :: "string \<Rightarrow> string option" where
  "leadingSpace s = find (\<lambda>p. prefix p s) whiteSpace"

definition trailingSpace :: "string \<Rightarrow> string option" where
  "trailingSpace s = find (\<lambda>p. suffix p s) whiteSpace"

text \<open>
  \<open>strings.TrimSpace(s)\<close>: the whitespace runes at the start are dropped, then those
  at the end.
\<close>

function trimLeft :: "string \<Rightarrow> string" where
  "trimLeft s =
     (case leadingSpace s of
        None \<Rightarrow> s
      | Some p \<Rightarrow> trimLeft (drop (length p) s))"
  by pat_completeness auto
termination
proof (relation "measure length")
  fix s p :: string
  assume "leadingSpace s = Some p"
  then have "p \<in> set whiteSpace" and "prefix p s"
    by (auto simp: leadingSpace_def find_Some_iff)
  then have "p \<noteq> []" and "length p \<le> length s"
    by (auto simp: whiteSpace_def prefix_length_le)
  then show "(drop (length p) s, s) \<in> measure length"
    by (cases p) auto
qed simp

function trimRight :: "string \<Rightarrow> string" where
  "trimRight s =
     (case trailingSpace s of
        None \<Rightarrow> s
      | Some p \<Rightarrow> trimRight (take (length s - length p) s))"
  by pat_completeness auto
termination
proof (relation "measure length")
  fix s p :: string
  assume "trailingSpace s = Some p"
  then have "p \<in> set whiteSpace" and "suffix p s"
    by (auto simp: trailingSpace_def find_Some_iff)
  then have "p \<noteq> []" and "length p \<le> length s"
    by (auto simp: whiteSpace_def suffix_length_le)
  then show "(take (length s - length p) s, s) \<in> measure length"
    by (cases p) auto
qed simp

definition TrimSpace :: "string \<Rightarrow> string" where
  "TrimSpace s = trimRight (trimLeft s)"

text \<open>
  \<open>strings.Fields(s)\<close>: the maximal runs of bytes between whitespace runes, in
  order; \<open>cur\<close> is the field being read.
\<close>

function fieldsFrom :: "string \<Rightarrow> string \<Rightarrow> string list" where
  "fieldsFrom cur s =
     (if s = [] then (if cur = [] then [] else [cur])
      else case leadingSpace s of
             Some p \<Rightarrow> (if cur = [] then [] else [cur]) @ fieldsFrom [] (drop (length p) s)
           | None \<Rightarrow> fieldsFrom (cur @ [hd s]) (tl s))"
  by pat_completeness auto
termination
proof (relation "measure (\<lambda>(cur, s). length s)")
  fix cur s p :: string
  assume "s \<noteq> []" and "leadingSpace s = Some p"
  then have "p \<in> set whiteSpace"
    by (auto simp: leadingSpace_def find_Some_iff)
  then have "p \<noteq> []"
    by (auto simp: whiteSpace_def)
  with \<open>s \<noteq> []\<close> show "(([], drop (length p) s), (cur, s)) \<in> measure (\<lambda>(cur, s). length s)"
    by (cases p) auto
next
  fix cur s :: string
  assume "s \<noteq> []"
  then show "((cur @ [hd s], tl s), (cur, s)) \<in> measure (\<lambda>(cur, s). length s)"
    by (cases s) auto
qed simp

definition Fields :: "string \<Rightarrow> string list" where
  "Fields s = fieldsFrom [] s"

text \<open>
  \<open>utf8.DecodeRuneInString\<close>: the code point at the start of a string and the number
  of bytes it takes. A byte that does not start a well-formed sequence (a stray
  continuation byte, an overlong or truncated form, a surrogate, a value above U+10FFFF)
  is read as \<open>RuneError\<close>, U+FFFD, of width 1.
\<close>

definition RuneError :: int where
  "RuneError = 0xFFFD"

definition continuation :: "char \<Rightarrow> bool" where
  "continuation c = ((0x80::int) \<le> of_char c \<and> of_char c \<le> (0xBF::int))"

text \<open>The second byte of a sequence of three or four bytes has a narrower range after E0, ED, F0 and F4.\<close>

definition secondByte :: "int \<Rightarrow> char \<Rightarrow> bool" where
  "secondByte b0 c =
     (let b1 = of_char c :: int in
      if b0 = 0xE0 then 0xA0 \<le> b1 \<and> b1 \<le> 0xBF
      else if b0 = 0xED then 0x80 \<le> b1 \<and> b1 \<le> 0x9F
      else if b0 = 0xF0 then 0x90 \<le> b1 \<and> b1 \<le> 0xBF
      else if b0 = 0xF4 then 0x80 \<le> b1 \<and> b1 \<le> 0x8F
      else 0x80 \<le> b1 \<and> b1 \<le> 0xBF)"

definition DecodeRuneInString :: "string \<Rightarrow> int \<times> nat" where
  "DecodeRuneInString s =
     (case s of
        [] \<Rightarrow> (RuneError, 0)
      | c0 # rest \<Rightarrow>
          let b0 = of_char c0 :: int in
          if b0 < 0x80 then (b0, 1)
          else if 0xC2 \<le> b0 \<and> b0 \<le> 0xDF then
            (case rest of
               c1 # _ \<Rightarrow>
                 if continuation c1
                 then ((b0 - 0xC0) * 0x40 + (of_char c1 - 0x80), 2)
                 else (RuneError, 1)
             | _ \<Rightarrow> (RuneError, 1))
          else if 0xE0 \<le> b0 \<and> b0 \<le> 0xEF then
            (case rest of
               c1 # c2 # _ \<Rightarrow>
                 if secondByte b0 c1 \<and> continuation c2
                 then (((b0 - 0xE0) * 0x40 + (of_char c1 - 0x80)) * 0x40
                         + (of_char c2 - 0x80), 3)
                 else (RuneError, 1)
             | _ \<Rightarrow> (RuneError, 1))
          else if 0xF0 \<le> b0 \<and> b0 \<le> 0xF4 then
            (case rest of
               c1 # c2 # c3 # _ \<Rightarrow>
                 if secondByte b0 c1 \<and> continuation c2 \<and> continuation c3
                 then ((((b0 - 0xF0) * 0x40 + (of_char c1 - 0x80)) * 0x40
                          + (of_char c2 - 0x80)) * 0x40 + (of_char c3 - 0x80), 4)
                 else (RuneError, 1)
             | _ \<Rightarrow> (RuneError, 1))
          else (RuneError, 1))"

text \<open>
  \<open>utf8.AppendRune\<close>, which \<open>strings.Builder.WriteRune\<close> calls: the UTF-8 bytes
  of a code point; a surrogate or a value above U+10FFFF is written as U+FFFD.
\<close>

definition EncodeRune :: "int \<Rightarrow> string" where
  "EncodeRune r =
     (if r < 0x80 then [char_of r]
      else if r < 0x800 then [char_of (0xC0 + r div 0x40), char_of (0x80 + r mod 0x40)]
      else if r > 0x10FFFF \<or> (0xD800 \<le> r \<and> r \<le> 0xDFFF) then [CHR 0xEF, CHR 0xBF, CHR 0xBD]
      else if r < 0x10000 then
        [char_of (0xE0 + r div 0x1000), char_of (0x80 + (r div 0x40) mod 0x40),
         char_of (0x80 + r mod 0x40)]
      else
        [char_of (0xF0 + r div 0x40000), char_of (0x80 + (r div 0x1000) mod 0x40),
         char_of (0x80 + (r div 0x40) mod 0x40), char_of (0x80 + r mod 0x40)])"

text \<open>
  \<open>strings.Map(mapping, s)\<close> for a mapping without negative results: the code points
  of the string, each mapped and written again. An ill-formed byte comes out as the
  three bytes of U+FFFD.
\<close>

function stringsMap :: "(int \<Rightarrow> int) \<Rightarrow> string \<Rightarrow> string" where
  "stringsMap mapping s =
     (if s = [] then []
      else (let (r, width) = DecodeRuneInString s
            in EncodeRune (mapping r) @ stringsMap mapping (drop (max 1 width) s)))"
  by pat_completeness auto
termination
  by (relation "measure (\<lambda>(mapping, s). length s)") auto

text \<open>
  The lower-case mappings of package \<open>unicode\<close> (its \<open>CaseRanges\<close>), which are the
  simple lower-case mappings of the Unicode Character Database, here of version 14.0:
  1433 letters. An entry \<open>(lo, hi, step, to)\<close> maps the code points \<open>lo\<close>,
  \<open>lo + step\<close>, ... up to \<open>hi\<close> to \<open>to\<close>, \<open>to + step\<close>, ...
\<close>

definition lowerRanges :: "(int \<times> int \<times> int \<times> int) list" where
  "lowerRanges =
    [(0x41, 0x5A, 1, 0x61), (0xC0, 0xD6, 1, 0xE0), (0xD8, 0xDE, 1, 0xF8),
     (0x100, 0x12E, 2, 0x101), (0x130, 0x130, 1, 0x69), (0x132, 0x136, 2, 0x133),
     (0x139, 0x147, 2, 0x13A), (0x14A, 0x176, 2, 0x14B), (0x178, 0x178, 1, 0xFF),
     (0x179, 0x17D, 2, 0x17A), (0x181, 0x181, 1, 0x253), (0x182, 0x184, 2, 0x183),
     (0x186, 0x186, 1, 0x254), (0x187, 0x187, 1, 0x188), (0x189, 0x18A, 1, 0x256),
     (0x18B, 0x18B, 1, 0x18C), (0x18E, 0x18E, 1, 0x1DD), (0x18F, 0x18F, 1, 0x259),
     (0x190, 0x190, 1, 0x25B), (0x191, 0x191, 1, 0x192), (0x193, 0x193, 1, 0x260),
     (0x194, 0x194, 1, 0x263), (0x196, 0x196, 1, 0x269), (0x197, 0x197, 1, 0x268),
     (0x198, 0x198, 1, 0x199), (0x19C, 0x19C, 1, 0x26F), (0x19D, 0x19D, 1, 0x272),
     (0x19F, 0x19F, 1, 0x275), (0x1A0, 0x1A4, 2, 0x1A1), (0x1A6, 0x1A6, 1, 0x280),
     (0x1A7, 0x1A7, 1, 0x1A8), (0x1A9, 0x1A9, 1, 0x283), (0x1AC, 0x1AC, 1, 0x1AD),
     (0x1AE, 0x1AE, 1, 0x288), (0x1AF, 0x1AF, 1, 0x1B0), (0x1B1, 0x1B2, 1, 0x28A),
     (0x1B3, 0x1B5, 2, 0x1B4), (0x1B7, 0x1B7, 1, 0x292), (0x1B8, 0x1B8, 1, 0x1B9),
     (0x1BC, 0x1BC, 1, 0x1BD), (0x1C4, 0x1C4, 1, 0x1C6), (0x1C5, 0x1C5, 1, 0x1C6),
     (0x1C7, 0x1C7, 1, 0x1C9), (0x1C8, 0x1C8, 1, 0x1C9), (0x1CA, 0x1CA, 1, 0x1CC),
     (0x1CB, 0x1DB, 2, 0x1CC), (0x1DE, 0x1EE, 2, 0x1DF), (0x1F1, 0x1F1, 1, 0x1F3),
     (0x1F2, 0x1F4, 2, 0x1F3), (0x1F6, 0x1F6, 1, 0x195), (0x1F7, 0x1F7, 1, 0x1BF),
     (0x1F8, 0x21E, 2, 0x1F9), (0x220, 0x220, 1, 0x19E), (0x222, 0x232, 2, 0x223),
     (0x23A, 0x23A, 1, 0x2C65), (0x23B, 0x23B, 1, 0x23C), (0x23D, 0x23D, 1, 0x19A),
     (0x23E, 0x23E, 1, 0x2C66), (0x241, 0x241, 1, 0x242), (0x243, 0x243, 1, 0x180),
     (0x244, 0x244, 1, 0x289), (0x245, 0x245, 1, 0x28C), (0x246, 0x24E, 2, 0x247),
     (0x370, 0x372, 2, 0x371), (0x376, 0x376, 1, 0x377), (0x37F, 0x37F, 1, 0x3F3),
     (0x386, 0x386, 1, 0x3AC), (0x388, 0x38A, 1, 0x3AD), (0x38C, 0x38C, 1, 0x3CC),
     (0x38E, 0x38F, 1, 0x3CD), (0x391, 0x3A1, 1, 0x3B1), (0x3A3, 0x3AB, 1, 0x3C3),
     (0x3CF, 0x3CF, 1, 0x3D7), (0x3D8, 0x3EE, 2, 0x3D9), (0x3F4, 0x3F4, 1, 0x3B8),
     (0x3F7, 0x3F7, 1, 0x3F8), (0x3F9, 0x3F9, 1, 0x3F2), (0x3FA, 0x3FA, 1, 0x3FB),
     (0x3FD, 0x3FF, 1, 0x37B), (0x400, 0x40F, 1, 0x450), (0x410, 0x42F, 1, 0x430),
     (0x460, 0x480, 2, 0x461), (0x48A, 0x4BE, 2, 0x48B), (0x4C0, 0x4C0, 1, 0x4CF),
     (0x4C1, 0x4CD, 2, 0x4C2), (0x4D0, 0x52E, 2, 0x4D1), (0x531, 0x556, 1, 0x561),
     (0x10A0, 0x10C5, 1, 0x2D00), (0x10C7, 0x10C7, 1, 0x2D27), (0x10CD, 0x10CD, 1, 0x2D2D),
     (0x13A0, 0x13EF, 1, 0xAB70), (0x13F0, 0x13F5, 1, 0x13F8), (0x1C90, 0x1CBA, 1, 0x10D0),
     (0x1CBD, 0x1CBF, 1, 0x10FD), (0x1E00, 0x1E94, 2, 0x1E01), (0x1E9E, 0x1E9E, 1, 0xDF),
     (0x1EA0, 0x1EFE, 2, 0x1EA1), (0x1F08, 0x1F0F, 1, 0x1F00), (0x1F18, 0x1F1D, 1, 0x1F10),
     (0x1F28, 0x1F2F, 1, 0x1F20), (0x1F38, 0x1F3F, 1, 0x1F30), (0x1F48, 0x1F4D, 1, 0x1F40),
     (0x1F59, 0x1F5F, 2, 0x1F51), (0x1F68, 0x1F6F, 1, 0x1F60), (0x1F88, 0x1F8F, 1, 0x1F80),
     (0x1F98, 0x1F9F, 1, 0x1F90), (0x1FA8, 0x1FAF, 1, 0x1FA0), (0x1FB8, 0x1FB9, 1, 0x1FB0),
     (0x1FBA, 0x1FBB, 1, 0x1F70), (0x1FBC, 0x1FBC, 1, 0x1FB3), (0x1FC8, 0x1FCB, 1, 0x1F72),
     (0x1FCC, 0x1FCC, 1, 0x1FC3), (0x1FD8, 0x1FD9, 1, 0x1FD0), (0x1FDA, 0x1FDB, 1, 0x1F76),
     (0x1FE8, 0x1FE9, 1, 0x1FE0), (0x1FEA, 0x1FEB, 1, 0x1F7A), (0x1FEC, 0x1FEC, 1, 0x1FE5),
     (0x1FF8, 0x1FF9, 1, 0x1F78), (0x1FFA, 0x1FFB, 1, 0x1F7C), (0x1FFC, 0x1FFC, 1, 0x1FF3),
     (0x2126, 0x2126, 1, 0x3C9), (0x212A, 0x212A, 1, 0x6B), (0x212B, 0x212B, 1, 0xE5),
     (0x2132, 0x2132, 1, 0x214E), (0x2160, 0x216F, 1, 0x2170), (0x2183, 0x2183, 1, 0x2184),
     (0x24B6, 0x24CF, 1, 0x24D0), (0x2C00, 0x2C2F, 1, 0x2C30), (0x2C60, 0x2C60, 1, 0x2C61),
     (0x2C62, 0x2C62, 1, 0x26B), (0x2C63, 0x2C63, 1, 0x1D7D), (0x2C64, 0x2C64, 1, 0x27D),
     (0x2C67, 0x2C6B, 2, 0x2C68), (0x2C6D, 0x2C6D, 1, 0x251), (0x2C6E, 0x2C6E, 1, 0x271),
     (0x2C6F, 0x2C6F, 1, 0x250), (0x2C70, 0x2C70, 1, 0x252), (0x2C72, 0x2C72, 1, 0x2C73),
     (0x2C75, 0x2C75, 1, 0x2C76), (0x2C7E, 0x2C7F, 1, 0x23F), (0x2C80, 0x2CE2, 2, 0x2C81),
     (0x2CEB, 0x2CED, 2, 0x2CEC), (0x2CF2, 0x2CF2, 1, 0x2CF3), (0xA640, 0xA66C, 2, 0xA641),
     (0xA680, 0xA69A, 2, 0xA681), (0xA722, 0xA72E, 2, 0xA723), (0xA732, 0xA76E, 2, 0xA733),
     (0xA779, 0xA77B, 2, 0xA77A), (0xA77D, 0xA77D, 1, 0x1D79), (0xA77E, 0xA786, 2, 0xA77F),
     (0xA78B, 0xA78B, 1, 0xA78C), (0xA78D, 0xA78D, 1, 0x265), (0xA790, 0xA792, 2, 0xA791),
     (0xA796, 0xA7A8, 2, 0xA797), (0xA7AA, 0xA7AA, 1, 0x266), (0xA7AB, 0xA7AB, 1, 0x25C),
     (0xA7AC, 0xA7AC, 1, 0x261), (0xA7AD, 0xA7AD, 1, 0x26C), (0xA7AE, 0xA7AE, 1, 0x26A),
     (0xA7B0, 0xA7B0, 1, 0x29E), (0xA7B1, 0xA7B1, 1, 0x287), (0xA7B2, 0xA7B2, 1, 0x29D),
     (0xA7B3, 0xA7B3, 1, 0xAB53), (0xA7B4, 0xA7C2, 2, 0xA7B5), (0xA7C4, 0xA7C4, 1, 0xA794),
     (0xA7C5, 0xA7C5, 1, 0x282), (0xA7C6, 0xA7C6, 1, 0x1D8E), (0xA7C7, 0xA7C9, 2, 0xA7C8),
     (0xA7D0, 0xA7D0, 1, 0xA7D1), (0xA7D6, 0xA7D8, 2, 0xA7D7), (0xA7F5, 0xA7F5, 1, 0xA7F6),
     (0xFF21, 0xFF3A, 1, 0xFF41), (0x10400, 0x10427, 1, 0x10428),
     (0x104B0, 0x104D3, 1, 0x104D8), (0x10570, 0x1057A, 1, 0x10597),
     (0x1057C, 0x1058A, 1, 0x105A3), (0x1058C, 0x10592, 1, 0x105B3),
     (0x10594, 0x10595, 1, 0x105BB), (0x10C80, 0x10CB2, 1, 0x10CC0),
     (0x118A0, 0x118BF, 1, 0x118C0), (0x16E40, 0x16E5F, 1, 0x16E60),
     (0x1E900, 0x1E921, 1, 0x1E922)]"

definition unicodeToLower :: "int \<Rightarrow> int" where
  "unicodeToLower r =
     (case find (\<lambda>(lo, hi, step, to). lo \<le> r \<and> r \<le> hi \<and> (r - lo) mod step = 0) lowerRanges of
        None \<Rightarrow> r
      | Some (lo, hi, step, to) \<Rightarrow> to + (r - lo))"

text \<open>
  \<open>strings.ToLower(s)\<close>: a string of ASCII bytes has its letters A to Z lowered; any
  other string goes through \<open>strings.Map\<close> with \<open>unicode.ToLower\<close>.
\<close>

definition lowerByte :: "char \<Rightarrow> char" where
  "lowerByte c =
     (if (65::nat) \<le> of_char c \<and> of_char c \<le> (90::nat)
      then char_of (of_char c + (32::nat)) else c)"

definition ToLower :: "string \<Rightarrow> string" where
  "ToLower s =
     (if list_all (\<lambda>c. (of_char c :: int) < 0x80) s then map lowerByte s
      else stringsMap unicodeToLower s)"

text \<open>
  \<open>unicode.IsSpace\<close> and \<open>unicode.IsPunct\<close> on a rune below U+0100, which is all
  the program asks of them: it converts one byte to a rune (\<open>rune(questionLower[index-1])\<close>).
  The punctuation of Latin-1 is the table of package \<open>unicode\<close> (categories P*):
  the symbols \<open>$ + < = > ^ ` | ~\<close> are not in it.
\<close>

definition IsSpace :: "char \<Rightarrow> bool" where
  "IsSpace c = (c \<in> set [CHR 0x09, CHR 0x0A, CHR 0x0B, CHR 0x0C, CHR 0x0D, CHR 0x20,
                          CHR 0x85, CHR 0xA0])"

definition IsPunct :: "char \<Rightarrow> bool" where
  "IsPunct c = (c \<in> set [CHR 0x21, CHR 0x22, CHR 0x23, CHR 0x25, CHR 0x26, CHR 0x27,
                          CHR 0x28, CHR 0x29, CHR 0x2A, CHR 0x2C, CHR 0x2D, CHR 0x2E,
                          CHR 0x2F, CHR 0x3A, CHR 0x3B, CHR 0x3F, CHR 0x40, CHR 0x5B,
                          CHR 0x5C, CHR 0x5D, CHR 0x5F, CHR 0x7B, CHR 0x7D, CHR 0xA1,
                          CHR 0xA7, CHR 0xAB, CHR 0xB6, CHR 0xB7, CHR 0xBB, CHR 0xBF])"

text \<open>
  The equations of the recursive functions above are used one step at a time in the
  proofs, not as rewrite rules.
\<close>

declare ReplaceAll.simps [simp del] trimLeft.simps [simp del] trimRight.simps [simp del]
  fieldsFrom.simps [simp del] stringsMap.simps [simp del]

section \<open>The data of the program\<close>

text \<open>
  The field \<open>Score\<close> of a question is an \<open>interface{}\<close> that holds a string or a
  number after JSON decoding. A number is kept here as the decimal text that
  \<open>strconv.FormatFloat\<close> or \<open>strconv.Itoa\<close> prints for it.
\<close>

datatype ScoreValue = ScoreString string | ScoreNumber string | ScoreOther

record Choice =
  Operator :: string
  Title :: string
  IsCorrect :: bool
  IsChecked :: bool

record QuestionItem =
  UUID :: string
  Type :: string
  Title :: string
  Score :: ScoreValue
  ShowAnswer :: string
  Choices :: "Choice list"
  Difficulty :: string

record QuestionCategory =
  TypeName :: string
  Questions :: "QuestionItem list"

record SearchConfig =
  Keyword :: string
  Type :: string

text \<open>\<open>Relevance\<close> is a \<open>float64\<close> in the program and a real number here.\<close>

record Result =
  Title :: string
  Info :: string
  Operator :: "string list"
  Relevance :: real
  Type :: string

text \<open>
  What \<open>searchQuestions\<close> can end with other than a result list: the error it returns
  for an unknown type, and the runtime panic of reading a field through a nil pointer.
\<close>

datatype SearchError = InvalidSelection | NilPointerDereference

section \<open>Labels and the Text Normalizer\<close>

text \<open>The three type labels are the UTF-8 bytes of the Chinese names in the source.\<close>

definition singleChoiceName :: string where
  "singleChoiceName =
     [CHR 0xE5, CHR 0x8D, CHR 0x95, CHR 0xE9, CHR 0x80, CHR 0x89, CHR 0xE9, CHR 0xA2, CHR 0x98]"

definition choiceName :: string where
  "choiceName =
     [CHR 0xE5, CHR 0xA4, CHR 0x9A, CHR 0xE9, CHR 0x80, CHR 0x89, CHR 0xE9, CHR 0xA2, CHR 0x98]"

definition determineName :: string where
  "determineName =
     [CHR 0xE5, CHR 0x88, CHR 0xA4, CHR 0xE6, CHR 0x96, CHR 0xAD, CHR 0xE9, CHR 0xA2, CHR 0x98]"

definition getQuestionTypeName :: "string \<Rightarrow> string" where
  "getQuestionTypeName qType =
     (if qType = ''single_choice'' then singleChoiceName
      else if qType = ''choice'' then choiceName
      else if qType = ''determine'' then determineName
      else qType)"

definition getDifficultyName :: "string \<Rightarrow> string" where
  "getDifficultyName difficulty =
     (if difficulty = ''simple''
        then [CHR 0xE7, CHR 0xAE, CHR 0x80, CHR 0xE5, CHR 0x8D, CHR 0x95]
      else if difficulty = ''normal''
        then [CHR 0xE4, CHR 0xB8, CHR 0xAD, CHR 0xE7, CHR 0xAD, CHR 0x89]
      else if difficulty = ''difficulty''
        then [CHR 0xE5, CHR 0x9B, CHR 0xB0, CHR 0xE9, CHR 0x9A, CHR 0xBE]
      else if difficulty = ''quite_difficulty''
        then [CHR 0xE8, CHR 0xBE, CHR 0x83, CHR 0xE9, CHR 0x9A, CHR 0xBE]
      else difficulty)"

fun getScore :: "ScoreValue \<Rightarrow> string" where
  "getScore (ScoreString v) = v"
| "getScore (ScoreNumber v) = v"
| "getScore ScoreOther = ''0''"

definition cleanText :: "string \<Rightarrow> string" where
  "cleanText text0 =
     (let text1 = ReplaceAll text0 ''<p>'' [];
          text2 = ReplaceAll text1 ''</p>'' [];
          text3 = ReplaceAll text2 ''&ldquo'' [];
          text4 = ReplaceAll text3 ''&rdquo'' [];
          text5 = ReplaceAll text4 ''&ge'' [];
          text6 = ReplaceAll text5 ''&rsquo'' [];
          text7 = ReplaceAll text6 ''&nbsp'' []
      in TrimSpace text7)"

section \<open>Arithmetic of float64\<close>

text \<open>
  The token tier of the Scorer computes with \<open>float64\<close>. A value of that type is kept
  here as a fraction of two integers, \<open>(numerator, denominator)\<close>, that is equal to it.
  Every operation gives the exact result rounded to the nearest \<open>float64\<close>, to the
  even one of two nearest (IEEE 754, 53 bits). Only results that are positive or zero and
  in the normal range are modelled: the program has no others (its numbers lie between
  0.1 and the number of tokens of a keyword).
\<close>

type_synonym float64 = "int \<times> int"

text \<open>The number of bits of a positive integer (\<open>bits.Len\<close>).\<close>

function bitLength :: "int \<Rightarrow> int" where
  "bitLength x = (if x \<le> 0 then 0 else bitLength (x div 2) + 1)"
  by pat_completeness auto
termination
  by (relation "measure nat") auto

text \<open>
  The \<open>float64\<close> nearest to \<open>p / q\<close>, for \<open>q > 0\<close>: the quotient is scaled by
  a power of two into \<open>[2^52, 2^53)\<close>, rounded to an integer, and scaled back.
\<close>

definition float64Of :: "int \<Rightarrow> int \<Rightarrow> float64" where
  "float64Of p q =
     (if p \<le> 0 then (0, 1)
      else
        let e0 = bitLength p - bitLength q - 53;
            n = (if e0 \<ge> 0 then p else p * 2 ^ nat (- e0));
            d0 = (if e0 \<ge> 0 then q * 2 ^ nat e0 else q);
            e = (if n \<ge> d0 * 9007199254740992 then e0 + 1 else e0);
            d = (if n \<ge> d0 * 9007199254740992 then d0 * 2 else d0);
            k = n div d;
            r = n mod d;
            m = (if 2 * r < d then k
                 else if 2 * r > d then k + 1
                 else if even k then k else k + 1)
        in if e \<ge> 0 then (m * 2 ^ nat e, 1) else (m, 2 ^ nat (- e)))"

text \<open>Conversion of an \<open>int\<close> (exact below \<open>2^53\<close>), product, quotient and sum.\<close>

definition f64int :: "nat \<Rightarrow> float64" where
  "f64int n = float64Of (int n) 1"

definition f64mul :: "float64 \<Rightarrow> float64 \<Rightarrow> float64" where
  "f64mul a b = float64Of (fst a * fst b) (snd a * snd b)"

definition f64div :: "float64 \<Rightarrow> float64 \<Rightarrow> float64" where
  "f64div a b = float64Of (fst a * snd b) (snd a * fst b)"

definition f64add :: "float64 \<Rightarrow> float64 \<Rightarrow> float64" where
  "f64add a b = float64Of (fst a * snd b + fst b * snd a) (snd a * snd b)"

text \<open>The real number a \<open>float64\<close> stands for.\<close>

definition f64real :: "float64 \<Rightarrow> real" where
  "f64real a = real_of_int (fst a) / real_of_int (snd a)"

declare bitLength.simps [simp del]

section \<open>The Relevance Scorer\<close>

text \<open>
  The inner loop of the token tier: the text tokens are read in order, and the first one
  that equals the keyword token or contains it decides.
\<close>

datatype WordMatch = NotFound | ExactMatch | PartialMatch

fun searchWord :: "string \<Rightarrow> string list \<Rightarrow> WordMatch" where
  "searchWord kw [] = NotFound"
| "searchWord kw (qw # questionWords) =
     (if qw = kw then ExactMatch
      else if Contains qw kw then PartialMatch
      else searchWord kw questionWords)"

text \<open>
  The outer loop, with the two counters passed along; \<open>None\<close> is the early
  \<open>return 0.3\<close>.
\<close>

fun matchWords :: "string list \<Rightarrow> string list \<Rightarrow> nat \<Rightarrow> nat \<Rightarrow> (nat \<times> nat) option" where
  "matchWords [] questionWords matchedWords exactWordMatches =
     Some (matchedWords, exactWordMatches)"
| "matchWords (kw # keywordWords) questionWords matchedWords exactWordMatches =
     (case searchWord kw questionWords of
        ExactMatch \<Rightarrow> matchWords keywordWords questionWords matchedWords (exactWordMatches + 1)
      | PartialMatch \<Rightarrow> matchWords keywordWords questionWords (matchedWords + 1) exactWordMatches
      | NotFound \<Rightarrow> None)"

text \<open>
  The score is a real number. A constant the program returns (1.0, 0.95, 0.9, 0.8, 0.3, 0)
  is written as that decimal and stands for the \<open>float64\<close> of the Go literal. The
  one score the program computes, at the end of the token tier, is the exact value of the
  \<open>float64\<close> result, with the literals 0.7 and 0.1 rounded first as the compiler
  does. When that line is reached every keyword token was counted once, so
  \<open>baseScore\<close> is 1, its product with 0.7 is exact, and a fused multiply-add would give
  the same sum.
\<close>

definition calculateRelevance :: "string \<Rightarrow> string \<Rightarrow> real" where
  "calculateRelevance question keyword =
     (if keyword = [] then 1.0
      else
        let questionLower = ToLower question;
            keywordLower = ToLower keyword
        in
          if questionLower = keywordLower then 1.0
          else if HasPrefix questionLower keywordLower then 0.95
          else if Contains questionLower keywordLower then
            (let index = Index questionLower keywordLower in
               if index > 0 \<and>
                  (let prevChar = questionLower ! nat (index - 1)
                   in IsSpace prevChar \<or> IsPunct prevChar)
               then 0.9 else 0.8)
          else
            let keywordWords = Fields keywordLower;
                questionWords = Fields questionLower
            in
              if length keywordWords = 0 then 0
              else
                case matchWords keywordWords questionWords 0 0 of
                  None \<Rightarrow> 0.3
                | Some (matchedWords, exactWordMatches) \<Rightarrow>
                    let baseScore = f64div (f64int (matchedWords + exactWordMatches))
                                           (f64int (length keywordWords));
                        exactBonus = f64mul (f64int exactWordMatches) (float64Of 1 10)
                    in f64real (f64add (f64mul baseScore (float64Of 7 10)) exactBonus))"

section \<open>The Category Index\<close>

text \<open>
  \<open>questionCategories\<close> is a Go map from a type name to a category. It is kept here as
  an association list with one entry per key; the order of the entries has no meaning in
  the program, which only looks keys up.
\<close>

type_synonym Categories = "(string \<times> QuestionCategory) list"

text \<open>The body of the grouping loop: the category is created on first sight, then appended to.\<close>

definition addQuestion :: "Categories \<Rightarrow> QuestionItem \<Rightarrow> Categories" where
  "addQuestion questionCategories question =
     (let typeName = getQuestionTypeName (QuestionItem.Type question);
          created =
            (if map_of questionCategories typeName = None
             then AList.update typeName \<lparr>TypeName = typeName, Questions = []\<rparr> questionCategories
             else questionCategories)
      in AList.map_entry typeName (\<lambda>c. c\<lparr>Questions := Questions c @ [question]\<rparr>) created)"

text \<open>
  \<open>getQuestionCategories\<close> reads the deduplicated map of questions from the file and
  copies it into \<open>questionsSlice\<close> with a \<open>range\<close> over the map. Go leaves the order
  of that iteration unspecified and varies it from one run to the next, so the slice is
  the argument here: any arrangement of the records of the map.
\<close>

definition getQuestionCategories :: "QuestionItem list \<Rightarrow> Categories" where
  "getQuestionCategories questionsSlice = foldl addQuestion [] questionsSlice"

section \<open>The Result Ranker\<close>

definition choiceLine :: "Choice \<Rightarrow> string" where
  "choiceLine choice =
     (let correctMark = (if IsCorrect choice then [CHR 0x20, CHR 0xE2, CHR 0x9C, CHR 0x93] else [])
      in ''  '' @ Choice.Operator choice @ ''. '' @ cleanText (Choice.Title choice)
           @ correctMark @ [CHR 0x0A])"

text \<open>The body of the first loop of \<open>searchQuestions\<close>; \<open>Relevance\<close> is still zero.\<close>

definition makeResult :: "SearchConfig \<Rightarrow> QuestionItem \<Rightarrow> Result" where
  "makeResult config question =
     \<lparr>Result.Title = '' '' @ cleanText (QuestionItem.Title question) @ [CHR 0x0A],
      Info = [CHR 0x20, CHR 0xE9, CHR 0x9A, CHR 0xBE, CHR 0xE5, CHR 0xBA, CHR 0xA6, CHR 0x3A, CHR 0x20]
               @ getDifficultyName (Difficulty question)
               @ [CHR 0x20, CHR 0x7C, CHR 0x20, CHR 0xE5, CHR 0x88, CHR 0x86, CHR 0xE5, CHR 0x80,
                  CHR 0xBC, CHR 0x3A, CHR 0x20]
               @ getScore (Score question)
               @ [CHR 0x20, CHR 0x7C, CHR 0x20, CHR 0xE6, CHR 0xAD, CHR 0xA3, CHR 0xE7, CHR 0xA1,
                  CHR 0xAE, CHR 0xE7, CHR 0xAD, CHR 0x94, CHR 0xE6, CHR 0xA1, CHR 0x88, CHR 0x3A,
                  CHR 0x20]
               @ ShowAnswer question @ [CHR 0x0A],
      Result.Operator = map choiceLine (Choices question),
      Relevance = 0,
      Result.Type = getQuestionTypeName (SearchConfig.Type config)\<rparr>"

text \<open>The second loop: every result is scored on its own \<open>Title\<close>.\<close>

definition scoreResults :: "SearchConfig \<Rightarrow> Result list \<Rightarrow> Result list" where
  "scoreResults config allQuestions =
     map (\<lambda>r. r\<lparr>Relevance := calculateRelevance (Result.Title r) (Keyword config)\<rparr>) allQuestions"

text \<open>The comparison function given to \<open>sort.Slice\<close>.\<close>

definition relevanceLess :: "Result \<Rightarrow> Result \<Rightarrow> bool" where
  "relevanceLess a b =
     (if Relevance a = Relevance b then length (Result.Title a) < length (Result.Title b)
      else Relevance a > Relevance b)"

text \<open>
  \<open>sort.Slice\<close> is documented to sort by the comparison function and not to be stable:
  it returns some arrangement of the slice in which no element is less than an earlier
  one. \<open>searchQuestions\<close> takes the sorting function as an argument, and
  \<open>sortSliceSpec\<close> is what Go promises of it.
\<close>

definition sortSliceSpec :: "((Result \<Rightarrow> Result \<Rightarrow> bool) \<Rightarrow> Result list \<Rightarrow> Result list) \<Rightarrow> bool" where
  "sortSliceSpec sortSlice \<longleftrightarrow>
     (\<forall>xs. mset (sortSlice relevanceLess xs) = mset xs
         \<and> sorted_wrt (\<lambda>a b. \<not> relevanceLess b a) (sortSlice relevanceLess xs))"

text \<open>
  On a short slice \<open>sort.Slice\<close> runs an insertion sort (up to 12 elements since
  Go 1.19, up to 6 before): each element in turn moves left while it is less than its
  left neighbour. \<open>insertLeft\<close> works on the sorted part in reverse, its last
  element first. The inputs below have at most three records.
\<close>

fun insertLeft :: "('a \<Rightarrow> 'a \<Rightarrow> bool) \<Rightarrow> 'a \<Rightarrow> 'a list \<Rightarrow> 'a list" where
  "insertLeft lt x [] = [x]"
| "insertLeft lt x (y # ys) = (if lt x y then y # insertLeft lt x ys else x # y # ys)"

definition insertionSort :: "('a \<Rightarrow> 'a \<Rightarrow> bool) \<Rightarrow> 'a list \<Rightarrow> 'a list" where
  "insertionSort lt xs = rev (foldl (\<lambda>sortedPart x. insertLeft lt x sortedPart) [] xs)"

text \<open>
  The \<open>switch\<close> on the requested type: an unknown type is the error; a known type gives
  the category of its name, or leaves the pointer \<open>nil\<close> (\<open>None\<close>) when the map has no
  such key.
\<close>

definition selectCategory :: "string \<Rightarrow> Categories \<Rightarrow> SearchError + QuestionCategory option" where
  "selectCategory qType questionCategories =
     (if qType = ''single_choice'' then Inr (map_of questionCategories singleChoiceName)
      else if qType = ''choice'' then Inr (map_of questionCategories choiceName)
      else if qType = ''determine'' then Inr (map_of questionCategories determineName)
      else Inl InvalidSelection)"

definition searchQuestions ::
  "((Result \<Rightarrow> Result \<Rightarrow> bool) \<Rightarrow> Result list \<Rightarrow> Result list)
     \<Rightarrow> SearchConfig \<Rightarrow> QuestionItem list \<Rightarrow> SearchError + Result list" where
  "searchQuestions sortSlice config questionsSlice =
     (let questionCategories = getQuestionCategories questionsSlice in
      case selectCategory (SearchConfig.Type config) questionCategories of
        Inl err \<Rightarrow> Inl err
      | Inr None \<Rightarrow> Inl NilPointerDereference
      | Inr (Some category) \<Rightarrow>
          let allQuestions = map (makeResult config) (Questions category);
              scored = scoreResults config allQuestions;
              ranked = sortSlice relevanceLess scored
          in
            if Keyword config \<noteq> [] then
              let filtered = filter (\<lambda>q. Relevance q > 0.5) ranked
              in Inr (if length filtered > 20 then take 20 filtered else filtered)
            else Inr ranked)"

section \<open>Notions the statements use\<close>

text \<open>The seven substrings \<open>cleanText\<close> removes.\<close>

definition noiseTokens :: "string list" where
  "noiseTokens = [''<p>'', ''</p>'', ''&ldquo'', ''&rdquo'', ''&ge'', ''&rsquo'', ''&nbsp'']"

text \<open>
  The counts of the token tier as the specification words them: a keyword token is an
  exact match when some text token equals it, and otherwise a partial match when some
  text token contains it.
\<close>

definition exactCount :: "string list \<Rightarrow> string list \<Rightarrow> nat" where
  "exactCount keywordWords questionWords =
     length (filter (\<lambda>kw. kw \<in> set questionWords) keywordWords)"

definition partialCount :: "string list \<Rightarrow> string list \<Rightarrow> nat" where
  "partialCount keywordWords questionWords =
     length (filter (\<lambda>kw. kw \<notin> set questionWords \<and> list_ex (\<lambda>qw. Contains qw kw) questionWords)
               keywordWords)"

text \<open>
  What the loop of the program counts instead: the first text token that equals or
  contains the keyword token decides whether the match is exact or partial.
\<close>

definition firstMatch :: "string \<Rightarrow> string list \<Rightarrow> string option" where
  "firstMatch kw questionWords = find (\<lambda>qw. qw = kw \<or> Contains qw kw) questionWords"

definition exactByFirstMatch :: "string list \<Rightarrow> string list \<Rightarrow> nat" where
  "exactByFirstMatch keywordWords questionWords =
     length (filter (\<lambda>kw. firstMatch kw questionWords = Some kw) keywordWords)"

definition partialByFirstMatch :: "string list \<Rightarrow> string list \<Rightarrow> nat" where
  "partialByFirstMatch keywordWords questionWords =
     length (filter (\<lambda>kw. case firstMatch kw questionWords of
                             Some qw \<Rightarrow> qw \<noteq> kw | None \<Rightarrow> False) keywordWords)"

text \<open>
  The key the comparison function orders by: higher relevance first, then the shorter
  title (in bytes). Pairs are compared lexicographically.
\<close>

definition rankKey :: "Result \<Rightarrow> real \<times> nat" where
  "rankKey r = (- Relevance r, length (Result.Title r))"

section \<open>Inputs the statements are tried on\<close>

text \<open>A question record with the given identifier, type and title, and no choices.\<close>

definition exampleQuestion :: "string \<Rightarrow> string \<Rightarrow> string \<Rightarrow> QuestionItem" where
  "exampleQuestion uuid qType title =
     \<lparr>UUID = uuid, QuestionItem.Type = qType, QuestionItem.Title = title,
      Score = ScoreString ''2'', ShowAnswer = ''A'', Choices = [], Difficulty = ''simple''\<rparr>"

text \<open>
  The title and the keyword of scenario A of the specification: nine Chinese characters
  ("basic concepts of computer networks") and their first five, in UTF-8.
\<close>

definition networkTitle :: string where
  "networkTitle =
     [CHR 0xE8, CHR 0xAE, CHR 0xA1, CHR 0xE7, CHR 0xAE, CHR 0x97, CHR 0xE6, CHR 0x9C, CHR 0xBA,
      CHR 0xE7, CHR 0xBD, CHR 0x91, CHR 0xE7, CHR 0xBB, CHR 0x9C, CHR 0xE5, CHR 0x9F, CHR 0xBA,
      CHR 0xE7, CHR 0xA1, CHR 0x80, CHR 0xE6, CHR 0xA6, CHR 0x82, CHR 0xE5, CHR 0xBF, CHR 0xB5]"

definition networkKeyword :: string where
  "networkKeyword =
     [CHR 0xE8, CHR 0xAE, CHR 0xA1, CHR 0xE7, CHR 0xAE, CHR 0x97, CHR 0xE6, CHR 0x9C, CHR 0xBA,
      CHR 0xE7, CHR 0xBD, CHR 0x91, CHR 0xE7, CHR 0xBB, CHR 0x9C]"

text \<open>
  Two Chinese texts with a keyword in the middle. In \<open>helloWorld\<close> ("ni hao, shi jie"
  with the full-width comma U+FF0C, bytes EF BC 8C) the keyword \<open>world\<close> follows the
  comma. In \<open>hello\<close> ("ni hao") the keyword \<open>good\<close> ("hao") follows the character
  "ni", U+4F60, whose last byte is A0.
\<close>

definition helloWorld :: string where
  "helloWorld =
     [CHR 0xE4, CHR 0xBD, CHR 0xA0, CHR 0xE5, CHR 0xA5, CHR 0xBD, CHR 0xEF, CHR 0xBC, CHR 0x8C,
      CHR 0xE4, CHR 0xB8, CHR 0x96, CHR 0xE7, CHR 0x95, CHR 0x8C]"

definition world :: string where
  "world = [CHR 0xE4, CHR 0xB8, CHR 0x96, CHR 0xE7, CHR 0x95, CHR 0x8C]"

definition hello :: string where
  "hello = [CHR 0xE4, CHR 0xBD, CHR 0xA0, CHR 0xE5, CHR 0xA5, CHR 0xBD]"

definition good :: string where
  "good = [CHR 0xE5, CHR 0xA5, CHR 0xBD]"

text \<open>
  The letters TCP in their full-width forms, upper case (U+FF34, U+FF23, U+FF30) and
  lower case (U+FF54, U+FF43, U+FF50), and the upper-case ones followed by "/IP".
\<close>

definition wideUpperTCP :: string where
  "wideUpperTCP = [CHR 0xEF, CHR 0xBC, CHR 0xB4, CHR 0xEF, CHR 0xBC, CHR 0xA3, CHR 0xEF, CHR 0xBC, CHR 0xB0]"

definition wideLowerTCP :: string where
  "wideLowerTCP = [CHR 0xEF, CHR 0xBD, CHR 0x94, CHR 0xEF, CHR 0xBD, CHR 0x83, CHR 0xEF, CHR 0xBD, CHR 0x90]"

text \<open>Three records of two types, as one iteration over the map may yield them.\<close>

definition exampleRecords :: "QuestionItem list" where
  "exampleRecords =
     [exampleQuestion ''q1'' ''single_choice'' ''tcp handshake'',
      exampleQuestion ''q2'' ''choice'' ''udp and tcp'',
      exampleQuestion ''q3'' ''single_choice'' ''ip routing'']"

text \<open>
  Two true-false questions whose display titles have the same length and hold the
  keyword at the same place, and a search for that keyword.
\<close>

definition tiedRecords :: "QuestionItem list" where
  "tiedRecords =
     [exampleQuestion ''q1'' ''determine'' ''tcp is reliable'',
      exampleQuestion ''q2'' ''determine'' ''udp is reliable'']"

definition tiedSearch :: SearchConfig where
  "tiedSearch = \<lparr>Keyword = ''reliable'', SearchConfig.Type = ''determine''\<rparr>"


section \<open>Facts about the string functions\<close>

lemma Index_lower_bound: "Index s sub \<ge> -1"
  by (induction s) (auto simp: Let_def)

lemma Index_zero_iff: "Index s sub = 0 \<longleftrightarrow> prefix sub s"
proof (cases s)
  case Nil
  then show ?thesis by auto
next
  case (Cons c t)
  have "Index t sub \<ge> -1" by (rule Index_lower_bound)
  then show ?thesis using Cons by (auto simp: Let_def)
qed

lemma Contains_Cons: "Contains (c # s) sub \<longleftrightarrow> prefix sub (c # s) \<or> Contains s sub"
  by (auto simp: Contains_def Let_def)

lemma Contains_prefix: "prefix sub s \<Longrightarrow> Contains s sub"
  using Index_zero_iff [of s sub] by (simp add: Contains_def)

lemma Index_pos: "Contains s sub \<Longrightarrow> \<not> prefix sub s \<Longrightarrow> Index s sub > 0"
  using Index_zero_iff [of s sub] by (simp add: Contains_def)

section \<open>The Text Normalizer\<close>

lemma ReplaceAll_absent: "\<not> Contains s old \<Longrightarrow> ReplaceAll s old new = s"
proof (induction s)
  case Nil
  then show ?case by (subst ReplaceAll.simps) simp
next
  case (Cons c s)
  then have "\<not> prefix old (c # s)" and "\<not> Contains s old"
    by (simp_all add: Contains_Cons)
  with Cons.IH show ?case
    by (subst ReplaceAll.simps) simp
qed

lemma leadingSpace_trimLeft: "leadingSpace (trimLeft s) = None"
proof (induction s rule: trimLeft.induct)
  case (1 s)
  then show ?case
    by (subst trimLeft.simps) (simp split: option.split)
qed

lemma trailingSpace_trimRight: "trailingSpace (trimRight s) = None"
proof (induction s rule: trimRight.induct)
  case (1 s)
  then show ?case
    by (subst trimRight.simps) (simp split: option.split)
qed

lemma prefix_trimRight: "prefix (trimRight s) s"
proof (induction s rule: trimRight.induct)
  case (1 s)
  show ?case
  proof (cases "trailingSpace s")
    case None
    then show ?thesis by (subst trimRight.simps) simp
  next
    case (Some p)
    with 1 have "prefix (trimRight (take (length s - length p) s)) (take (length s - length p) s)"
      by simp
    then have "prefix (trimRight (take (length s - length p) s)) s"
      using take_is_prefix prefix_order.trans by blast
    with Some show ?thesis by (subst trimRight.simps) simp
  qed
qed

lemma leadingSpace_of_prefix: "leadingSpace s = None \<Longrightarrow> prefix t s \<Longrightarrow> leadingSpace t = None"
  unfolding leadingSpace_def find_None_iff using prefix_order.trans by blast

lemma TrimSpace_idempotent: "TrimSpace (TrimSpace s) = TrimSpace s"
proof -
  have "leadingSpace (TrimSpace s) = None"
    unfolding TrimSpace_def
    using leadingSpace_trimLeft prefix_trimRight by (rule leadingSpace_of_prefix)
  then have "trimLeft (TrimSpace s) = TrimSpace s"
    by (subst trimLeft.simps) simp
  moreover have "trailingSpace (TrimSpace s) = None"
    unfolding TrimSpace_def by (rule trailingSpace_trimRight)
  then have "trimRight (TrimSpace s) = TrimSpace s"
    by (subst trimRight.simps) simp
  ultimately show ?thesis
    by (simp add: TrimSpace_def)
qed

text \<open>
  C4 as stated fails. Removing a noise substring can join the text around it into a new
  one: from
  \<open><<p>p>\<close> the first pass takes the inner \<open><p>\<close> and leaves \<open><p>\<close>, which a
  second pass removes.
\<close>

theorem cleanText_not_idempotent:
  "cleanText (cleanText ''<<p>p>'') \<noteq> cleanText ''<<p>p>''"
  by code_simp

text \<open>
  C4, amended. Normalizing again changes nothing when the normalized text holds none of
  the seven noise substrings.
\<close>

theorem cleanText_idempotent_without_noise:
  assumes "\<forall>old\<in>set noiseTokens. \<not> Contains (cleanText s) old"
  shows "cleanText (cleanText s) = cleanText s"
proof -
  have unchanged: "ReplaceAll (cleanText s) old [] = cleanText s" if "old \<in> set noiseTokens" for old
    using assms that by (simp add: ReplaceAll_absent)
  have "cleanText (cleanText s) = TrimSpace (cleanText s)"
    unfolding cleanText_def [of "cleanText s"] Let_def
    by (simp add: unchanged noiseTokens_def)
  also have "\<dots> = cleanText s"
    unfolding cleanText_def [of s] Let_def by (rule TrimSpace_idempotent)
  finally show ?thesis .
qed

theorem cleanText_idempotent_without_noise_witness:
  "cleanText ''  <p>tcp&nbspudp</p> '' = ''tcpudp''
   \<and> cleanText (cleanText ''  <p>tcp&nbspudp</p> '') = cleanText ''  <p>tcp&nbspudp</p> ''"
proof -
  have clean: "\<forall>old\<in>set noiseTokens. \<not> Contains (cleanText ''  <p>tcp&nbspudp</p> '') old"
    by code_simp
  have "cleanText ''  <p>tcp&nbspudp</p> '' = ''tcpudp''"
    by code_simp
  then show ?thesis
    using cleanText_idempotent_without_noise [OF clean] by blast
qed

section \<open>The tiers of the Scorer\<close>

text \<open>
  C8. The first three tiers, in their order of priority: an empty keyword scores 1.0
  against every text; a keyword equal to the text once both are lowered scores 1.0; a
  keyword that no earlier tier takes (it is not empty, and not equal to the text once
  lowered) and that is a prefix of the text once both are lowered scores 0.95.
\<close>

theorem scorer_first_tiers:
  "calculateRelevance question [] = 1.0
   \<and> (ToLower question = ToLower keyword \<longrightarrow> calculateRelevance question keyword = 1.0)
   \<and> (keyword \<noteq> [] \<and> HasPrefix (ToLower question) (ToLower keyword)
        \<and> ToLower question \<noteq> ToLower keyword
      \<longrightarrow> calculateRelevance question keyword = 0.95)"
  by (simp add: calculateRelevance_def)

theorem scorer_first_tiers_witness:
  "ToLower ''TCP'' = ToLower ''tcp'' \<and> calculateRelevance ''TCP'' ''tcp'' = 1.0
   \<and> ''tcp'' \<noteq> [] \<and> HasPrefix (ToLower ''TCP/IP'') (ToLower ''tcp'')
   \<and> ToLower ''TCP/IP'' \<noteq> ToLower ''tcp'' \<and> calculateRelevance ''TCP/IP'' ''tcp'' = 0.95
   \<and> wideUpperTCP \<noteq> wideLowerTCP \<and> ToLower wideUpperTCP = ToLower wideLowerTCP
   \<and> calculateRelevance wideUpperTCP wideLowerTCP = 1.0
   \<and> HasPrefix (ToLower (wideUpperTCP @ ''/IP'')) (ToLower wideLowerTCP)
   \<and> calculateRelevance (wideUpperTCP @ ''/IP'') wideLowerTCP = 0.95"
proof -
  have equal: "ToLower ''TCP'' = ToLower ''tcp''"
    by code_simp
  have starts: "''tcp'' \<noteq> [] \<and> HasPrefix (ToLower ''TCP/IP'') (ToLower ''tcp'')
                 \<and> ToLower ''TCP/IP'' \<noteq> ToLower ''tcp''"
    by code_simp
  have wide_equal: "wideUpperTCP \<noteq> wideLowerTCP \<and> ToLower wideUpperTCP = ToLower wideLowerTCP"
    by code_simp
  have wide_starts: "wideLowerTCP \<noteq> []
                 \<and> HasPrefix (ToLower (wideUpperTCP @ ''/IP'')) (ToLower wideLowerTCP)
                 \<and> ToLower (wideUpperTCP @ ''/IP'') \<noteq> ToLower wideLowerTCP"
    by code_simp
  from equal have "calculateRelevance ''TCP'' ''tcp'' = 1.0"
    using scorer_first_tiers [of "''TCP''" "''tcp''"] by blast
  moreover from starts have "calculateRelevance ''TCP/IP'' ''tcp'' = 0.95"
    using scorer_first_tiers [of "''TCP/IP''" "''tcp''"] by blast
  moreover from wide_equal have "calculateRelevance wideUpperTCP wideLowerTCP = 1.0"
    using scorer_first_tiers [of wideUpperTCP wideLowerTCP] by blast
  moreover from wide_starts have "calculateRelevance (wideUpperTCP @ ''/IP'') wideLowerTCP = 0.95"
    using scorer_first_tiers [of "wideUpperTCP @ ''/IP''" wideLowerTCP] by blast
  ultimately show ?thesis
    using equal starts wide_equal wide_starts by blast
qed

text \<open>
  \<open>strings.ToLower\<close> writes an ill-formed byte as U+FFFD, so a keyword cut in the
  middle of a character is not a prefix of the text it was cut from: the first two bytes
  of \<open>hello\<close> go to the token tier and score 0.3.
\<close>

lemma keyword_cut_inside_character:
  "prefix [CHR 0xE4, CHR 0xBD] hello
   \<and> ToLower [CHR 0xE4, CHR 0xBD] = [CHR 0xEF, CHR 0xBF, CHR 0xBD, CHR 0xEF, CHR 0xBF, CHR 0xBD]
   \<and> \<not> HasPrefix (ToLower hello) (ToLower [CHR 0xE4, CHR 0xBD])
   \<and> calculateRelevance hello [CHR 0xE4, CHR 0xBD] = 0.3"
  by code_simp

text \<open>
  The substring tier in general: the score depends on the one byte before the first
  occurrence of the keyword, read as a code point below U+0100.
\<close>

lemma calculateRelevance_substring:
  assumes "keyword \<noteq> []"
    and "Contains (ToLower question) (ToLower keyword)"
    and "\<not> HasPrefix (ToLower question) (ToLower keyword)"
  shows "calculateRelevance question keyword =
           (let prevChar = ToLower question ! nat (Index (ToLower question) (ToLower keyword) - 1)
            in if IsSpace prevChar \<or> IsPunct prevChar then 0.9 else 0.8)"
proof -
  have "ToLower question \<noteq> ToLower keyword"
    using assms(3) by (auto simp: HasPrefix_def)
  moreover have "Index (ToLower question) (ToLower keyword) > 0"
    using assms(2,3) by (simp add: Index_pos HasPrefix_def)
  ultimately show ?thesis
    using assms by (simp add: calculateRelevance_def Let_def)
qed

text \<open>
  C5, on the code. The boundary test reads the byte before the match and converts that
  one byte to a rune, so it sees the last byte of a multi-byte character instead of the
  character. After the full-width comma (punctuation) the score is 0.8 where the claim
  says 0.9; after the letter "ni", whose last byte A0 is the code point of the
  no-break space, the score is 0.9 where the claim says 0.8.
\<close>

theorem boundary_test_reads_one_byte:
  "calculateRelevance helloWorld world = 0.8 \<and> calculateRelevance hello good = 0.9"
  by code_simp

subsection \<open>The token tier\<close>

lemma searchWord_firstMatch:
  "searchWord kw questionWords =
     (case firstMatch kw questionWords of
        None \<Rightarrow> NotFound
      | Some qw \<Rightarrow> if qw = kw then ExactMatch else PartialMatch)"
  by (induction questionWords) (auto simp: firstMatch_def)

lemma firstMatch_None_iff:
  "firstMatch kw questionWords = None
     \<longleftrightarrow> (\<forall>qw\<in>set questionWords. qw \<noteq> kw \<and> \<not> Contains qw kw)"
  by (auto simp: firstMatch_def find_None_iff)

text \<open>
  The loop counts by the first matching text token, or stops at the first keyword token
  without a match.
\<close>

lemma matchWords_counts:
  "matchWords keywordWords questionWords m e =
     (if \<forall>kw\<in>set keywordWords. firstMatch kw questionWords \<noteq> None
      then Some (m + partialByFirstMatch keywordWords questionWords,
                 e + exactByFirstMatch keywordWords questionWords)
      else None)"
proof (induction keywordWords arbitrary: m e)
  case Nil
  then show ?case by (simp add: partialByFirstMatch_def exactByFirstMatch_def)
next
  case (Cons kw kws)
  show ?case
  proof (cases "firstMatch kw questionWords")
    case None
    then show ?thesis by (simp add: searchWord_firstMatch)
  next
    case (Some qw)
    then show ?thesis
      using Cons.IH
      by (auto simp: searchWord_firstMatch partialByFirstMatch_def exactByFirstMatch_def)
  qed
qed

lemma calculateRelevance_tokens:
  assumes "keyword \<noteq> []" and "\<not> Contains (ToLower question) (ToLower keyword)"
  shows "calculateRelevance question keyword =
    (let keywordWords = Fields (ToLower keyword); questionWords = Fields (ToLower question) in
     if keywordWords = [] then 0
     else case matchWords keywordWords questionWords 0 0 of
            None \<Rightarrow> 0.3
          | Some (matchedWords, exactWordMatches) \<Rightarrow>
              f64real (f64add
                (f64mul (f64div (f64int (matchedWords + exactWordMatches))
                                (f64int (length keywordWords)))
                        (float64Of 7 10))
                (f64mul (f64int exactWordMatches) (float64Of 1 10))))"
proof -
  have "\<not> prefix (ToLower keyword) (ToLower question)"
    using assms(2) Contains_prefix by blast
  then have "ToLower question \<noteq> ToLower keyword"
    and "\<not> HasPrefix (ToLower question) (ToLower keyword)"
    by (auto simp: HasPrefix_def)
  then show ?thesis
    using assms by (auto simp: calculateRelevance_def Let_def split: option.split)
qed

text \<open>A keyword of whitespace only has no token; the token tier then returns 0.\<close>

lemma calculateRelevance_no_token:
  assumes "keyword \<noteq> []" and "\<not> Contains (ToLower question) (ToLower keyword)"
    and "Fields (ToLower keyword) = []"
  shows "calculateRelevance question keyword = 0"
  using assms by (simp add: calculateRelevance_tokens)

text \<open>
  The first half of C6 holds on the code: a keyword token that no text token equals or
  contains ends the tier with 0.3.
\<close>

lemma calculateRelevance_token_missing:
  assumes "keyword \<noteq> []" and "\<not> Contains (ToLower question) (ToLower keyword)"
    and "kw \<in> set (Fields (ToLower keyword))"
    and "\<forall>qw\<in>set (Fields (ToLower question)). qw \<noteq> kw \<and> \<not> Contains qw kw"
  shows "calculateRelevance question keyword = 0.3"
proof -
  have "Fields (ToLower keyword) \<noteq> []"
    using assms(3) by auto
  moreover have "firstMatch kw (Fields (ToLower question)) = None"
    using assms(4) by (simp add: firstMatch_None_iff)
  then have "matchWords (Fields (ToLower keyword)) (Fields (ToLower question)) 0 0 = None"
    using assms(3) by (auto simp: matchWords_counts)
  ultimately show ?thesis
    using assms(1,2) by (simp add: calculateRelevance_tokens Let_def)
qed

text \<open>
  The rounding shows in the scores: two exact matches give the \<open>float64\<close> printed
  0.8999999999999999, below the 0.9 of the substring tier, and three give exactly 1.
\<close>

lemma token_tier_rounding:
  "calculateRelevance ''x y'' ''y x'' = 8106479329266892 / 9007199254740992
   \<and> calculateRelevance ''x y'' ''y x'' < 0.9
   \<and> calculateRelevance ''x y z'' ''z y x'' = 1"
  by code_simp

text \<open>
  C6, on the code. The text \<open>abc ab\<close> has the tokens \<open>abc\<close> and \<open>ab\<close>, the keyword
  \<open>ab abc\<close> the tokens \<open>ab\<close> and \<open>abc\<close>, and the keyword is not a substring of the
  text. Both keyword tokens equal a text token, so the counts of the claim are 2 exact
  and 0 partial, and its formula \<open>(0 + 2) / 2 * 0.7 + 2 * 0.1\<close> gives the \<open>float64\<close>
  printed 0.8999999999999999. The loop of the program stops at \<open>abc\<close>, which contains
  \<open>ab\<close>, before it reaches the equal token: it counts 1 partial and 1 exact and returns
  the \<open>float64\<close> printed 0.7999999999999999.
\<close>

theorem token_tier_stops_at_partial_match:
  "Fields (ToLower ''abc ab'') = [''abc'', ''ab'']
   \<and> Fields (ToLower ''ab abc'') = [''ab'', ''abc'']
   \<and> \<not> Contains (ToLower ''abc ab'') (ToLower ''ab abc'')
   \<and> exactCount [''ab'', ''abc''] [''abc'', ''ab''] = 2
   \<and> partialCount [''ab'', ''abc''] [''abc'', ''ab''] = 0
   \<and> f64real (f64add (f64mul (f64div (f64int (0 + 2)) (f64int 2)) (float64Of 7 10))
                       (f64mul (f64int 2) (float64Of 1 10)))
       = 8106479329266892 / 9007199254740992
   \<and> searchWord ''ab'' [''abc'', ''ab''] = PartialMatch
   \<and> matchWords [''ab'', ''abc''] [''abc'', ''ab''] 0 0 = Some (1, 1)
   \<and> calculateRelevance ''abc ab'' ''ab abc'' = 7205759403792793 / 9007199254740992"
  by code_simp

text \<open>
  C9. Some text and keyword reach the token tier (the keyword is not a substring of the
  text) and get a score above 1: every one of the four keyword tokens equals a text token,
  so the score is that of \<open>0.7 + 4 * 0.1\<close>.
\<close>

theorem token_tier_exceeds_one:
  "\<exists>question keyword.
     keyword \<noteq> [] \<and> \<not> Contains (ToLower question) (ToLower keyword)
     \<and> calculateRelevance question keyword > 1.0"
proof -
  have "\<not> Contains (ToLower ''a b c d'') (ToLower ''d c b a'')"
    by code_simp
  moreover have "calculateRelevance ''a b c d'' ''d c b a'' > 1.0"
    by code_simp
  ultimately show ?thesis
    by (intro exI [of _ "''a b c d''"] exI [of _ "''d c b a''"]) simp
qed

section \<open>The Category Index partitions the records\<close>

lemma buckets_map_entry:
  "k \<in> fst ` set al \<Longrightarrow>
   mset (concat (map (\<lambda>(k, c). Questions c)
           (AList.map_entry k (\<lambda>c. c\<lparr>Questions := Questions c @ [q]\<rparr>) al)))
     = add_mset q (mset (concat (map (\<lambda>(k, c). Questions c) al)))"
  by (induction al) (auto simp: case_prod_beta)

lemma buckets_update_new:
  "k \<notin> fst ` set al \<Longrightarrow>
   concat (map (\<lambda>(k, c). Questions c) (AList.update k \<lparr>TypeName = k, Questions = []\<rparr> al))
     = concat (map (\<lambda>(k, c). Questions c) al)"
  by (induction al) (auto simp: case_prod_beta)

lemma addQuestion_distinct:
  "distinct (map fst cats) \<Longrightarrow> distinct (map fst (addQuestion cats q))"
  by (simp add: addQuestion_def Let_def AList.distinct_map_entry AList.distinct_update)

lemma addQuestion_buckets:
  "mset (concat (map (\<lambda>(k, c). Questions c) (addQuestion cats q)))
     = add_mset q (mset (concat (map (\<lambda>(k, c). Questions c) cats)))"
  by (auto simp: addQuestion_def Let_def buckets_map_entry buckets_update_new
        AList.dom_update map_of_eq_None_iff)

lemma addQuestion_lookup:
  "map_of (addQuestion cats q) k =
     (if k = getQuestionTypeName (QuestionItem.Type q)
      then (case map_of cats k of
              None \<Rightarrow> Some \<lparr>TypeName = k, Questions = [q]\<rparr>
            | Some c \<Rightarrow> Some (c\<lparr>Questions := Questions c @ [q]\<rparr>))
      else map_of cats k)"
  by (auto simp: addQuestion_def Let_def AList.map_of_map_entry AList.update_conv'
           split: option.splits)

lemma getQuestionCategories_snoc:
  "getQuestionCategories (qs @ [q]) = addQuestion (getQuestionCategories qs) q"
  by (simp add: getQuestionCategories_def)

lemma getQuestionCategories_distinct: "distinct (map fst (getQuestionCategories qs))"
proof (induction qs rule: rev_induct)
  case Nil
  then show ?case by (simp add: getQuestionCategories_def)
next
  case (snoc q qs)
  then show ?case by (simp add: getQuestionCategories_snoc addQuestion_distinct)
qed

lemma getQuestionCategories_buckets:
  "mset (concat (map (\<lambda>(k, c). Questions c) (getQuestionCategories qs))) = mset qs"
proof (induction qs rule: rev_induct)
  case Nil
  then show ?case by (simp add: getQuestionCategories_def)
next
  case (snoc q qs)
  then show ?case by (simp add: getQuestionCategories_snoc addQuestion_buckets)
qed

text \<open>The category of a name holds the records of that name, in the order of the slice.\<close>

lemma getQuestionCategories_lookup:
  "map_of (getQuestionCategories qs) k =
     (if \<exists>q\<in>set qs. getQuestionTypeName (QuestionItem.Type q) = k
      then Some \<lparr>TypeName = k,
                 Questions = filter (\<lambda>q. getQuestionTypeName (QuestionItem.Type q) = k) qs\<rparr>
      else None)"
proof (induction qs rule: rev_induct)
  case Nil
  then show ?case by (simp add: getQuestionCategories_def)
next
  case (snoc q qs)
  then show ?case
    by (auto simp: getQuestionCategories_snoc addQuestion_lookup)
qed

lemma getQuestionCategories_entry:
  assumes "(k, c) \<in> set (getQuestionCategories qs)"
  shows "Questions c = filter (\<lambda>q. getQuestionTypeName (QuestionItem.Type q) = k) qs"
proof -
  have "map_of (getQuestionCategories qs) k = Some c"
    using assms getQuestionCategories_distinct by simp
  then show ?thesis
    by (auto simp: getQuestionCategories_lookup split: if_splits)
qed

lemma one_entry_per_key:
  "distinct (map fst al) \<Longrightarrow> k \<in> fst ` set al \<Longrightarrow> length (filter (\<lambda>p. fst p = k) al) = 1"
proof (induction al)
  case Nil
  then show ?case by simp
next
  case (Cons p al)
  show ?case
  proof (cases "fst p = k")
    case True
    with Cons.prems have "k \<notin> fst ` set al"
      by simp
    then have "filter (\<lambda>p. fst p = k) al = []"
      by (auto simp: filter_empty_conv image_iff)
    with True show ?thesis by simp
  next
    case False
    with Cons show ?thesis by auto
  qed
qed

text \<open>
  C10. The categories partition the records of the slice: the keys are distinct; the
  records of all categories together are the records of the slice, each as often as it
  is there; a record is only in the category of its own type name; and every record is
  in exactly one category.
\<close>

theorem category_index_partitions:
  "distinct (map fst (getQuestionCategories qs))
   \<and> mset (concat (map (\<lambda>(k, c). Questions c) (getQuestionCategories qs))) = mset qs
   \<and> (\<forall>(k, c)\<in>set (getQuestionCategories qs).
         \<forall>q\<in>set (Questions c). getQuestionTypeName (QuestionItem.Type q) = k)
   \<and> (\<forall>q\<in>set qs.
         length (filter (\<lambda>(k, c). q \<in> set (Questions c)) (getQuestionCategories qs)) = 1)"
proof (intro conjI)
  show "distinct (map fst (getQuestionCategories qs))"
    by (rule getQuestionCategories_distinct)
  show "mset (concat (map (\<lambda>(k, c). Questions c) (getQuestionCategories qs))) = mset qs"
    by (rule getQuestionCategories_buckets)
  show "\<forall>(k, c)\<in>set (getQuestionCategories qs).
          \<forall>q\<in>set (Questions c). getQuestionTypeName (QuestionItem.Type q) = k"
    by (auto dest: getQuestionCategories_entry)
  show "\<forall>q\<in>set qs.
          length (filter (\<lambda>(k, c). q \<in> set (Questions c)) (getQuestionCategories qs)) = 1"
  proof
    fix q assume q: "q \<in> set qs"
    let ?t = "getQuestionTypeName (QuestionItem.Type q)"
    have "filter (\<lambda>(k, c). q \<in> set (Questions c)) (getQuestionCategories qs)
            = filter (\<lambda>p. fst p = ?t) (getQuestionCategories qs)"
      using q by (intro filter_cong) (auto dest: getQuestionCategories_entry)
    moreover have "?t \<in> fst ` set (getQuestionCategories qs)"
    proof -
      have "map_of (getQuestionCategories qs) ?t \<noteq> None"
        using q by (auto simp: getQuestionCategories_lookup)
      then show ?thesis by (simp add: map_of_eq_None_iff)
    qed
    ultimately show
      "length (filter (\<lambda>(k, c). q \<in> set (Questions c)) (getQuestionCategories qs)) = 1"
      using one_entry_per_key [OF getQuestionCategories_distinct] by simp
  qed
qed

theorem category_index_partitions_witness:
  "map fst (getQuestionCategories exampleRecords) = [singleChoiceName, choiceName]
   \<and> exampleQuestion ''q3'' ''single_choice'' ''ip routing'' \<in> set exampleRecords
   \<and> mset (concat (map (\<lambda>(k, c). Questions c) (getQuestionCategories exampleRecords)))
       = mset exampleRecords
   \<and> length (filter (\<lambda>(k, c). exampleQuestion ''q3'' ''single_choice'' ''ip routing''
                                  \<in> set (Questions c))
               (getQuestionCategories exampleRecords)) = 1"
proof -
  have keys: "map fst (getQuestionCategories exampleRecords) = [singleChoiceName, choiceName]"
    by code_simp
  have member: "exampleQuestion ''q3'' ''single_choice'' ''ip routing'' \<in> set exampleRecords"
    by (simp add: exampleRecords_def)
  show ?thesis
    using category_index_partitions [of exampleRecords] keys member by blast
qed

section \<open>Sorting by relevance\<close>

text \<open>
  The comparison function orders by \<open>rankKey\<close>, so any sorted arrangement has the same
  sequence of keys; the insertion sort is one such arrangement.
\<close>

lemma relevanceLess_rankKey: "\<not> relevanceLess b a \<longleftrightarrow> rankKey a \<le> rankKey b"
  by (auto simp: relevanceLess_def rankKey_def)

lemma ranked_iff_sorted_keys:
  "sorted_wrt (\<lambda>a b. \<not> relevanceLess b a) xs \<longleftrightarrow> sorted (map rankKey xs)"
  by (simp add: relevanceLess_rankKey sorted_map)

lemma mset_insertLeft: "mset (insertLeft lt x ys) = add_mset x (mset ys)"
  by (induction ys) auto

lemma mset_insertionSort: "mset (insertionSort lt xs) = mset xs"
proof -
  have "mset (foldl (\<lambda>sortedPart x. insertLeft lt x sortedPart) acc xs) = mset acc + mset xs" for acc
    by (induction xs arbitrary: acc) (auto simp: mset_insertLeft)
  then show ?thesis by (simp add: insertionSort_def)
qed

lemma insertLeft_descending:
  "sorted (rev (map rankKey ys)) \<Longrightarrow> sorted (rev (map rankKey (insertLeft relevanceLess x ys)))"
proof (induction ys)
  case Nil
  then show ?case by simp
next
  case (Cons y ys)
  have set_ins: "set (insertLeft relevanceLess x ys) = insert x (set ys)"
    using mset_insertLeft [of relevanceLess x ys] by (metis set_mset_add_mset_insert set_mset_mset)
  show ?case
  proof (cases "relevanceLess x y")
    case True
    then have "rankKey x \<le> rankKey y"
      by (auto simp: relevanceLess_def rankKey_def split: if_splits)
    with True Cons show ?thesis
      by (auto simp: sorted_append set_ins)
  next
    case False
    then have "rankKey y \<le> rankKey x"
      by (simp add: relevanceLess_rankKey)
    with False Cons.prems show ?thesis
      by (auto simp: sorted_append)
  qed
qed

lemma insertionSort_ranked: "sorted (map rankKey (insertionSort relevanceLess xs))"
proof -
  have "sorted (rev (map rankKey acc)) \<Longrightarrow>
        sorted (rev (map rankKey (foldl (\<lambda>sortedPart x. insertLeft relevanceLess x sortedPart) acc xs)))" for acc
    by (induction xs arbitrary: acc) (auto simp: insertLeft_descending)
  from this [of "[]"] show ?thesis
    by (simp add: insertionSort_def rev_map)
qed

lemma insertionSort_spec: "sortSliceSpec insertionSort"
  by (simp add: sortSliceSpec_def mset_insertionSort ranked_iff_sorted_keys insertionSort_ranked)

lemma sorted_keys_unique:
  assumes "sortSliceSpec sortA" and "sortSliceSpec sortB" and "mset xs = mset ys"
  shows "map rankKey (sortA relevanceLess xs) = map rankKey (sortB relevanceLess ys)"
proof -
  have a: "mset (map rankKey (sortA relevanceLess xs)) = mset (map rankKey xs)"
    and sa: "sorted (map rankKey (sortA relevanceLess xs))"
    using assms(1) by (simp_all add: sortSliceSpec_def ranked_iff_sorted_keys)
  have b: "mset (map rankKey (sortB relevanceLess ys)) = mset (map rankKey xs)"
    and sb: "sorted (map rankKey (sortB relevanceLess ys))"
    using assms(2,3) by (simp_all add: sortSliceSpec_def ranked_iff_sorted_keys)
  have "sort (map rankKey xs) = map rankKey (sortA relevanceLess xs)"
    using a sa by (rule properties_for_sort)
  moreover have "sort (map rankKey xs) = map rankKey (sortB relevanceLess ys)"
    using b sb by (rule properties_for_sort)
  ultimately show ?thesis by simp
qed

section \<open>The search\<close>

lemma searchQuestions_cases:
  "searchQuestions sortSlice config qs =
     (if SearchConfig.Type config \<in> {''single_choice'', ''choice'', ''determine''}
      then (case map_of (getQuestionCategories qs)
                   (getQuestionTypeName (SearchConfig.Type config)) of
              None \<Rightarrow> Inl NilPointerDereference
            | Some category \<Rightarrow>
                Inr (let ranked = sortSlice relevanceLess
                             (scoreResults config (map (makeResult config) (Questions category)))
                     in if Keyword config \<noteq> []
                        then (let filtered = filter (\<lambda>q. Relevance q > 0.5) ranked
                              in if length filtered > 20 then take 20 filtered else filtered)
                        else ranked))
      else Inl InvalidSelection)"
  by (auto simp: searchQuestions_def selectCategory_def getQuestionTypeName_def Let_def
           split: option.splits)

lemma ranked_relation:
  "\<not> relevanceLess b a \<longleftrightarrow>
     Relevance a > Relevance b
     \<or> (Relevance a = Relevance b \<and> length (Result.Title a) \<le> length (Result.Title b))"
  by (auto simp: relevanceLess_def)

text \<open>What the threshold and the cap do to the keys of a ranked list.\<close>

lemma keys_after_threshold:
  "map rankKey (filter (\<lambda>q. Relevance q > 0.5) xs) = filter (\<lambda>k. fst k < - 0.5) (map rankKey xs)"
  by (induction xs) (auto simp: rankKey_def)

lemma keys_of_outcome:
  assumes "map rankKey xs = map rankKey ys"
  shows "map rankKey (let ranked = xs
                      in if kw \<noteq> []
                         then (let filtered = filter (\<lambda>q. Relevance q > 0.5) ranked
                               in if length filtered > 20 then take 20 filtered else filtered)
                         else ranked)
       = map rankKey (let ranked = ys
                      in if kw \<noteq> []
                         then (let filtered = filter (\<lambda>q. Relevance q > 0.5) ranked
                               in if length filtered > 20 then take 20 filtered else filtered)
                         else ranked)"
proof -
  have f: "map rankKey (filter (\<lambda>q. Relevance q > 0.5) xs)
             = map rankKey (filter (\<lambda>q. Relevance q > 0.5) ys)"
    by (simp only: keys_after_threshold assms)
  then have "length (filter (\<lambda>q. Relevance q > 0.5) xs) = length (filter (\<lambda>q. Relevance q > 0.5) ys)"
    by (metis length_map)
  with f assms show ?thesis
    by (simp add: Let_def take_map [symmetric] del: filter_map)
qed

lemma outcome_ranked:
  assumes "sorted_wrt (\<lambda>a b. \<not> relevanceLess b a) xs"
  shows "sorted_wrt (\<lambda>a b. \<not> relevanceLess b a)
           (let ranked = xs
            in if kw \<noteq> []
               then (let filtered = filter (\<lambda>q. Relevance q > 0.5) ranked
                     in if length filtered > 20 then take 20 filtered else filtered)
               else ranked)"
  using assms by (simp add: Let_def sorted_wrt_filter sorted_wrt_take)

text \<open>
  The two ways the search ends without a result: an unknown type is the returned error,
  and a known type without a record is the panic.
\<close>

lemma searchQuestions_unknown_type:
  "SearchConfig.Type config \<notin> {''single_choice'', ''choice'', ''determine''} \<Longrightarrow>
     searchQuestions sortSlice config qs = Inl InvalidSelection"
  by (simp add: searchQuestions_cases)

lemma searchQuestions_no_record:
  assumes "SearchConfig.Type config \<in> {''single_choice'', ''choice'', ''determine''}"
    and "\<forall>q\<in>set qs. getQuestionTypeName (QuestionItem.Type q)
                        \<noteq> getQuestionTypeName (SearchConfig.Type config)"
  shows "searchQuestions sortSlice config qs = Inl NilPointerDereference"
  using assms by (simp add: searchQuestions_cases getQuestionCategories_lookup)

text \<open>
  C2, on the code. The type \<open>choice\<close> is recognized, and no record has it: the map has
  no category of that name, the pointer stays nil, and the loop over
  \<open>category.Questions\<close> panics instead of returning an empty list.
\<close>

theorem search_empty_category_panics:
  "searchQuestions insertionSort \<lparr>Keyword = ''tcp'', SearchConfig.Type = ''choice''\<rparr>
     [exampleQuestion ''q1'' ''single_choice'' ''tcp handshake''] = Inl NilPointerDereference"
  by code_simp

text \<open>
  C1, on the code. The Ranker scores the display title, which is the normalized title
  with a space before it and a line feed after it. For the question of scenario A the
  keyword is a prefix of the normalized title, and the Scorer gives 0.95 on that title;
  the result of the search carries 0.9, the score of a match after a space.
\<close>

theorem search_scores_display_title:
  "calculateRelevance (cleanText networkTitle) networkKeyword = 0.95
   \<and> (case searchQuestions insertionSort
              \<lparr>Keyword = networkKeyword, SearchConfig.Type = ''single_choice''\<rparr>
              [exampleQuestion ''q1'' ''single_choice'' networkTitle] of
         Inr [r] \<Rightarrow> Relevance r = 0.9
       | _ \<Rightarrow> False)"
  by code_simp



text \<open>
  C3 as stated fails. The two records of \<open>tiedRecords\<close> tie on score and title length. The map of records
  is the same whichever of them the iteration yields first, and the two orders give
  different result lists: the ranking of a fixed set of records is not the same on
  every call.
\<close>

theorem ranking_depends_on_iteration_order:
  "mset tiedRecords = mset (rev tiedRecords)
   \<and> searchQuestions insertionSort tiedSearch tiedRecords
       \<noteq> searchQuestions insertionSort tiedSearch (rev tiedRecords)"
proof -
  have "searchQuestions insertionSort tiedSearch tiedRecords
       \<noteq> searchQuestions insertionSort tiedSearch (rev tiedRecords)"
    by code_simp
  then show ?thesis by simp
qed

text \<open>
  C3, amended. The results are in descending order of relevance, and among equal
  relevance in ascending order of the length of the title in bytes. The order of results
  that tie on both is not fixed: for one set of records, any two iteration orders of the
  map and any two behaviours of \<open>sort.Slice\<close> give result lists with the same sequence
  of (relevance, title length) pairs.
\<close>

theorem ranking_order_up_to_ties:
  assumes "sortSliceSpec sortA" and "sortSliceSpec sortB"
    and "mset qsA = mset qsB"
    and "searchQuestions sortA config qsA = Inr rsA"
  shows "sorted_wrt (\<lambda>a b. Relevance a > Relevance b
                         \<or> (Relevance a = Relevance b
                              \<and> length (Result.Title a) \<le> length (Result.Title b))) rsA
       \<and> (\<exists>rsB. searchQuestions sortB config qsB = Inr rsB
                 \<and> map rankKey rsB = map rankKey rsA)"
proof -
  let ?name = "getQuestionTypeName (SearchConfig.Type config)"
  let ?outcome = "\<lambda>ranked. (let ranked = ranked
                 in if Keyword config \<noteq> []
                    then (let filtered = filter (\<lambda>q. Relevance q > 0.5) ranked
                          in if length filtered > 20 then take 20 filtered else filtered)
                    else ranked)"
  from assms(4) obtain categoryA where
    known: "SearchConfig.Type config \<in> {''single_choice'', ''choice'', ''determine''}"
    and lookA: "map_of (getQuestionCategories qsA) ?name = Some categoryA"
    and rsA: "rsA = ?outcome (sortA relevanceLess
                (scoreResults config (map (makeResult config) (Questions categoryA))))"
    by (auto simp: searchQuestions_cases split: if_splits option.splits)
  let ?candsA = "scoreResults config (map (makeResult config) (Questions categoryA))"
  have "sorted_wrt (\<lambda>a b. \<not> relevanceLess b a) (sortA relevanceLess ?candsA)"
    using assms(1) by (simp add: sortSliceSpec_def)
  then have "sorted_wrt (\<lambda>a b. \<not> relevanceLess b a) rsA"
    unfolding rsA by (rule outcome_ranked)
  then have ordered: "sorted_wrt (\<lambda>a b. Relevance a > Relevance b
                         \<or> (Relevance a = Relevance b
                              \<and> length (Result.Title a) \<le> length (Result.Title b))) rsA"
    by (simp add: ranked_relation)
  have same_set: "set qsA = set qsB"
    using assms(3) by (rule mset_eq_setD)
  from lookA have bucketA: "Questions categoryA = filter (\<lambda>q. getQuestionTypeName (QuestionItem.Type q) = ?name) qsA"
    and some: "\<exists>q\<in>set qsA. getQuestionTypeName (QuestionItem.Type q) = ?name"
    by (auto simp: getQuestionCategories_lookup split: if_splits)
  define categoryB where "categoryB = \<lparr>TypeName = ?name,
     Questions = filter (\<lambda>q. getQuestionTypeName (QuestionItem.Type q) = ?name) qsB\<rparr>"
  have lookB: "map_of (getQuestionCategories qsB) ?name = Some categoryB"
    using some same_set by (simp add: getQuestionCategories_lookup categoryB_def)
  let ?candsB = "scoreResults config (map (makeResult config) (Questions categoryB))"
  have "mset (Questions categoryA) = mset (Questions categoryB)"
    using assms(3) by (simp add: bucketA categoryB_def)
  then have "mset ?candsA = mset ?candsB"
    by (simp add: scoreResults_def)
  then have "map rankKey (sortA relevanceLess ?candsA) = map rankKey (sortB relevanceLess ?candsB)"
    using assms(1,2) by (intro sorted_keys_unique)
  then have "map rankKey (?outcome (sortB relevanceLess ?candsB)) = map rankKey rsA"
    unfolding rsA by (intro keys_of_outcome) simp
  moreover have "searchQuestions sortB config qsB = Inr (?outcome (sortB relevanceLess ?candsB))"
    using known lookB by (simp add: searchQuestions_cases)
  ultimately show ?thesis
    using ordered by blast
qed

theorem ranking_order_up_to_ties_witness:
  "sortSliceSpec insertionSort \<and> mset tiedRecords = mset (rev tiedRecords)
   \<and> (\<exists>rsA rsB.
         searchQuestions insertionSort tiedSearch tiedRecords = Inr rsA \<and> length rsA = 2
         \<and> sorted_wrt (\<lambda>a b. Relevance a > Relevance b
                         \<or> (Relevance a = Relevance b
                              \<and> length (Result.Title a) \<le> length (Result.Title b))) rsA
         \<and> searchQuestions insertionSort tiedSearch (rev tiedRecords) = Inr rsB
         \<and> map rankKey rsB = map rankKey rsA)"
proof -
  have "case searchQuestions insertionSort tiedSearch tiedRecords of
          Inr rs \<Rightarrow> length rs = 2 | Inl e \<Rightarrow> False"
    by code_simp
  then obtain rsA where
    rsA: "searchQuestions insertionSort tiedSearch tiedRecords = Inr rsA"
    and len: "length rsA = 2"
    by (auto split: sum.splits)
  have same: "mset tiedRecords = mset (rev tiedRecords)"
    by simp
  show ?thesis
    using ranking_order_up_to_ties [OF insertionSort_spec insertionSort_spec same rsA]
      insertionSort_spec same rsA len
    by blast
qed

end
